theory Spec2Isabelle
  imports Complex_Main
begin

section \<open>Runnables (lsp\_ext.ts)\<close>

text \<open>
  A runnable is \<^verbatim>\<open>{label, location?} & (RunnableWebby | RunnableShell)\<close>. The two
  payload shapes are the two constructors of \<open>RunnableArgs\<close>; the discriminant
  \<^verbatim>\<open>kind\<close> is read off the constructor. JavaScript strings are modelled as \<open>string\<close>,
  arrays of strings as lists, an optional field as an \<open>option\<close>. The fields
  \<^verbatim>\<open>kind\<close> and \<^verbatim>\<open>args\<close> of the shell payload are called \<open>shellKind\<close> and
  \<open>shellArgs\<close> here.
\<close>

typedecl LocationLink

datatype RunnableArgs =
    WebbyRunnableArgs
      (workspaceRoot: "string option")
      (executableArgs: "string list")
      (webbyArgs: "string list")
      (overrideWebby: "string option")
      (environment: "(string \<times> string) list option")
      (cwd: string)
  | ShellRunnableArgs
      (shellKind: string)
      (program: string)
      (shellArgs: "string list")
      (environment: "(string \<times> string) list option")
      (cwd: string)

record Runnable =
  label :: string
  location :: "LocationLink option"
  payload :: RunnableArgs

text \<open>\<^verbatim>\<open>runnable.kind\<close>: the tag of the union, \<^verbatim>\<open>'webby'\<close> or \<^verbatim>\<open>'shell'\<close>.\<close>

fun kindOfArgs :: "RunnableArgs \<Rightarrow> string" where
  "kindOfArgs (WebbyRunnableArgs wr ea wa ow en cw) = ''webby''"
| "kindOfArgs (ShellRunnableArgs k p a en cw) = ''shell''"

definition kind :: "Runnable \<Rightarrow> string" where
  "kind r = kindOfArgs (payload r)"

section \<open>Building the argument list (runSingle, debugSingle)\<close>

text \<open>\<^verbatim>\<open>xs.join(sep)\<close> on an array of strings.\<close>

fun join :: "string \<Rightarrow> string list \<Rightarrow> string" where
  "join sep [] = []"
| "join sep [x] = x"
| "join sep (x # y # zs) = x @ sep @ join sep (y # zs)"

text \<open>The template \<^verbatim>\<open>`'${s}'`\<close>: the string between two single quotes.\<close>

definition quoted :: "string \<Rightarrow> string" where
  "quoted s = CHR 0x27 # s @ [CHR 0x27]"

text \<open>
  Lines 453--463 of debugSingle and 637--647 of runSingle are the same statements:
  \<^verbatim>\<open>
    let args: string[] = [];
    if (runnable.kind === 'webby') {
      args = [...runnable.args.webbyArgs];
      if (runnable.args.executableArgs.length > 0) {
        runnable.args['executableArgs'][0] = `'${runnable.args['executableArgs'][0]}'`;
        args.push('--', ...runnable.args.executableArgs);
      }
    } else {
      args = [...runnable.args.args];
    }
  \<close>
  The assignment to element 0 writes into the runnable's own array, so the function
  returns the runnable as it is afterwards together with the local \<^verbatim>\<open>args\<close>.
\<close>

fun buildArgsOf :: "RunnableArgs \<Rightarrow> string list \<times> RunnableArgs" where
  "buildArgsOf (WebbyRunnableArgs wr ea wa ow en cw) =
     (case ea of
        [] \<Rightarrow> (wa, WebbyRunnableArgs wr ea wa ow en cw)
      | e # es \<Rightarrow>
          (let ea' = ea[0 := quoted e]
           in (wa @ ''--'' # ea', WebbyRunnableArgs wr ea' wa ow en cw)))"
| "buildArgsOf (ShellRunnableArgs k p a en cw) = (a, ShellRunnableArgs k p a en cw)"

definition buildArgs :: "Runnable \<Rightarrow> string list \<times> Runnable" where
  "buildArgs r = (case buildArgsOf (payload r) of (as, p) \<Rightarrow> (as, r\<lparr>payload := p\<rparr>))"

section \<open>The expected kind and name (debugSingle, lines 483--531)\<close>

text \<open>The \<^verbatim>\<open>switch (arg)\<close> of the first loop: the tag a flag stands for, if any.\<close>

definition kindFlag :: "string \<Rightarrow> string option" where
  "kindFlag arg =
     (if arg = ''--bin'' then Some ''bin''
      else if arg = ''--lib'' then Some ''lib''
      else if arg = ''--test'' then Some ''test''
      else if arg = ''--example'' then Some ''example''
      else if arg = ''--bench'' then Some ''bench''
      else None)"

text \<open>
  The first loop, with \<^verbatim>\<open>expectedKind\<close> as the loop state. While it is undefined the
  switch may set it; once it is defined the current argument becomes
  \<^verbatim>\<open>expectedName\<close> unless the kind is \<^verbatim>\<open>'lib'\<close>, and the loop breaks.
\<close>

fun kindLoop :: "string option \<Rightarrow> string list \<Rightarrow> string option \<times> string option" where
  "kindLoop ek [] = (ek, None)"
| "kindLoop None (arg # rest) = kindLoop (kindFlag arg) rest"
| "kindLoop (Some k) (arg # rest) = (Some k, if k \<noteq> ''lib'' then Some arg else None)"

text \<open>
  The second loop, with \<^verbatim>\<open>foundPackageArgument\<close> as the loop state: the argument
  read after the flag was seen is the name.
\<close>

fun packageLoop :: "bool \<Rightarrow> string list \<Rightarrow> string option" where
  "packageLoop found [] = None"
| "packageLoop found (arg # rest) =
     (if found then Some arg
      else packageLoop (if arg = ''--package'' then True else found) rest)"

definition expectedFilter :: "string list \<Rightarrow> string option \<times> string option" where
  "expectedFilter wargs =
     (case kindLoop None wargs of
        (ek, None) \<Rightarrow> (ek, packageLoop False wargs)
      | (ek, Some n) \<Rightarrow> (ek, Some n))"

text \<open>
  \<^verbatim>\<open>const webbyArgs = runnable.kind === 'webby' ? runnable.args.webbyArgs : []\<close>
\<close>

fun filterArgsOf :: "RunnableArgs \<Rightarrow> string list" where
  "filterArgsOf (WebbyRunnableArgs wr ea wa ow en cw) = wa"
| "filterArgsOf (ShellRunnableArgs k p a en cw) = []"

section \<open>Build-tool messages (debugSingle, lines 556--597)\<close>

text \<open>
  The values \<^verbatim>\<open>JSON.parse\<close> can return. A number carries its value as a rational;
  only whether it is zero is ever looked at. An object carries its properties as an
  association list and a property is read with \<open>map_of\<close>. \<^verbatim>\<open>JSON.parse\<close>
  itself belongs to the JavaScript runtime, not to this repository: the scan takes it as
  a parameter \<open>parse\<close>, with \<open>None\<close> for a \<^verbatim>\<open>SyntaxError\<close>.
\<close>

datatype json =
    JNull
  | JBool bool
  | JNum rat
  | JStr string
  | JArr "json list"
  | JObj "(string \<times> json) list"

datatype error = Error string | TypeError

text \<open>
  \<^verbatim>\<open>v[key]\<close> for a key that no prototype defines (the scan reads \<^verbatim>\<open>reason\<close>,
  \<^verbatim>\<open>target\<close>, \<^verbatim>\<open>kind\<close>, \<^verbatim>\<open>name\<close> and \<^verbatim>\<open>executable\<close>). The result
  \<open>None\<close> is \<^verbatim>\<open>undefined\<close>. Reading a property of \<^verbatim>\<open>null\<close> or of
  \<^verbatim>\<open>undefined\<close> throws a TypeError; a number, a boolean, a string or an array
  has none of these properties.
\<close>

fun getProp :: "json option \<Rightarrow> string \<Rightarrow> error + json option" where
  "getProp None key = Inl TypeError"
| "getProp (Some JNull) key = Inl TypeError"
| "getProp (Some (JObj kvs)) key = Inr (map_of kvs key)"
| "getProp (Some v) key = Inr None"

text \<open>JavaScript truthiness of a parsed value.\<close>

fun truthy :: "json \<Rightarrow> bool" where
  "truthy JNull = False"
| "truthy (JBool b) = b"
| "truthy (JNum n) = (n \<noteq> 0)"
| "truthy (JStr s) = (s \<noteq> [])"
| "truthy (JArr xs) = True"
| "truthy (JObj kvs) = True"

text \<open>\<^verbatim>\<open>s.includes(t)\<close> on strings: \<open>t\<close> occurs in \<open>s\<close> as a substring.\<close>

fun startsWith :: "string \<Rightarrow> string \<Rightarrow> bool" where
  "startsWith s [] = True"
| "startsWith [] (c # t) = False"
| "startsWith (d # s) (c # t) = (d = c \<and> startsWith s t)"

fun stringIncludes :: "string \<Rightarrow> string \<Rightarrow> bool" where
  "stringIncludes [] t = (t = [])"
| "stringIncludes (c # s) t = (startsWith (c # s) t \<or> stringIncludes s t)"

text \<open>
  \<^verbatim>\<open>v.includes(expectedKind)\<close>: an array looks for an element equal to the string, a
  string looks for a substring, and no other value has a method \<^verbatim>\<open>includes\<close>.
\<close>

fun jsIncludes :: "json option \<Rightarrow> string \<Rightarrow> error + bool" where
  "jsIncludes (Some (JArr xs)) k = Inr (JStr k \<in> set xs)"
| "jsIncludes (Some (JStr s)) k = Inr (stringIncludes s k)"
| "jsIncludes v k = Inl TypeError"

text \<open>
  \<^verbatim>\<open>expectedKind !== undefined && !webbyMessage['target']['kind'].includes(expectedKind)\<close>:
  whether the message is skipped for its kind.
\<close>

definition wrongKind :: "string option \<Rightarrow> json \<Rightarrow> error + bool" where
  "wrongKind expectedKind m =
     (case expectedKind of
        None \<Rightarrow> Inr False
      | Some k \<Rightarrow>
          (case getProp (Some m) ''target'' of
             Inl e \<Rightarrow> Inl e
           | Inr target \<Rightarrow>
               (case getProp target ''kind'' of
                  Inl e \<Rightarrow> Inl e
                | Inr knd \<Rightarrow>
                    (case jsIncludes knd k of Inl e \<Rightarrow> Inl e | Inr b \<Rightarrow> Inr (\<not> b)))))"

text \<open>
  \<^verbatim>\<open>expectedName !== undefined && webbyMessage['target']['name'] !== expectedName\<close>:
  whether the message is skipped for its name.
\<close>

definition wrongName :: "string option \<Rightarrow> json \<Rightarrow> error + bool" where
  "wrongName expectedName m =
     (case expectedName of
        None \<Rightarrow> Inr False
      | Some n \<Rightarrow>
          (case getProp (Some m) ''target'' of
             Inl e \<Rightarrow> Inl e
           | Inr target \<Rightarrow>
               (case getProp target ''name'' of
                  Inl e \<Rightarrow> Inl e
                | Inr nm \<Rightarrow> Inr (nm \<noteq> Some (JStr n)))))"

text \<open>
  One round of the loop over the standard output, after the line was parsed to
  \<open>m\<close>: \<open>Continue\<close> goes on to the next line, \<open>Break x\<close> leaves the loop with
  \<^verbatim>\<open>executable = x\<close>. A falsy message is only logged (the \<^verbatim>\<open>if (!webbyMessage)\<close>
  has no \<^verbatim>\<open>continue\<close>), so the checks below run on it as on any other.
\<close>

datatype round = Continue | Break json

definition scanMessage :: "string option \<Rightarrow> string option \<Rightarrow> json \<Rightarrow> error + round" where
  "scanMessage expectedKind expectedName m =
     (case getProp (Some m) ''reason'' of
        Inl e \<Rightarrow> Inl e
      | Inr reason \<Rightarrow>
          if reason \<noteq> Some (JStr ''compiler-artifact'') then Inr Continue
          else
            (case wrongKind expectedKind m of
               Inl e \<Rightarrow> Inl e
             | Inr True \<Rightarrow> Inr Continue
             | Inr False \<Rightarrow>
                 (case wrongName expectedName m of
                    Inl e \<Rightarrow> Inl e
                  | Inr True \<Rightarrow> Inr Continue
                  | Inr False \<Rightarrow>
                      (case getProp (Some m) ''executable'' of
                         Inl e \<Rightarrow> Inl e
                       | Inr None \<Rightarrow> Inr Continue
                       | Inr (Some x) \<Rightarrow> if truthy x then Inr (Break x) else Inr Continue))))"

text \<open>One line: an empty line and a line that does not parse are passed over.\<close>

definition scanLine ::
  "(string \<Rightarrow> json option) \<Rightarrow> string option \<Rightarrow> string option \<Rightarrow> string \<Rightarrow> error + round" where
  "scanLine parse expectedKind expectedName line =
     (if line = [] then Inr Continue
      else case parse line of
             None \<Rightarrow> Inr Continue
           | Some m \<Rightarrow> scanMessage expectedKind expectedName m)"

text \<open>
  The \<^verbatim>\<open>for await (const line of rl)\<close> loop. The result is the value of
  \<^verbatim>\<open>executable\<close> when the loop is left (\<open>None\<close> is its initial \<^verbatim>\<open>null\<close>), or the
  exception thrown inside it, together with the lines that were not read.
\<close>

fun scanLines ::
  "(string \<Rightarrow> json option) \<Rightarrow> string option \<Rightarrow> string option \<Rightarrow> string list
     \<Rightarrow> (error + json option) \<times> string list" where
  "scanLines parse expectedKind expectedName [] = (Inr None, [])"
| "scanLines parse expectedKind expectedName (line # rest) =
     (case scanLine parse expectedKind expectedName line of
        Inl e \<Rightarrow> (Inl e, rest)
      | Inr Continue \<Rightarrow> scanLines parse expectedKind expectedName rest
      | Inr (Break x) \<Rightarrow> (Inr (Some x), rest))"

text \<open>
  The loop followed by \<^verbatim>\<open>if (!executable) throw new Error('Could not find executable')\<close>.
\<close>

definition findExecutable ::
  "(string \<Rightarrow> json option) \<Rightarrow> string option \<Rightarrow> string option \<Rightarrow> string list
     \<Rightarrow> (error + json) \<times> string list" where
  "findExecutable parse expectedKind expectedName lines =
     (case scanLines parse expectedKind expectedName lines of
        (Inl e, rest) \<Rightarrow> (Inl e, rest)
      | (Inr None, rest) \<Rightarrow> (Inl (Error ''Could not find executable''), rest)
      | (Inr (Some x), rest) \<Rightarrow>
          if truthy x then (Inr x, rest)
          else (Inl (Error ''Could not find executable''), rest))"

section \<open>The editor, the configuration and the JavaScript runtime\<close>

text \<open>
  What the commands read from outside the repository, gathered in one record:
  the language of the current document (\<^verbatim>\<open>workspace.getCurrentState()\<close>), the
  settings read through \<^verbatim>\<open>ctx.config\<close>, the answer of the language server to the
  runnables request, the index returned by \<^verbatim>\<open>window.showQuickpick\<close>, the lines the
  spawned build tool writes to its standard output, and three functions of the JavaScript
  runtime: \<^verbatim>\<open>JSON.parse\<close>, the conversion of a value to a string inside a template
  literal, and \<^verbatim>\<open>String.prototype.replace\<close> with a string pattern.
  Calls to \<^verbatim>\<open>console\<close> and the progress reports read from the standard error of the
  build tool take no part in the control flow and are not recorded.
\<close>

record env =
  languageId :: string
  debugRuntime :: string
  vimspectorName :: string
  nvimdapTemplate :: "string option"
  startinsert :: bool
  response :: "error + Runnable list"
  quickpick :: "string list \<Rightarrow> int"
  stdoutLines :: "string list"
  jsonParse :: "string \<Rightarrow> json option"
  toStr :: "json \<Rightarrow> string"
  replace :: "string \<Rightarrow> string \<Rightarrow> string \<Rightarrow> string"

text \<open>The calls made to the editor and to the operating system, in the order made.\<close>

datatype effect =
    ShowInformationMessage string
  | SendRequest
  | ShowQuickpick "string list"
  | Spawn string "string list"
  | NvimCommand string
  | NvimCall string "(string \<times> json) list"
  | NvimLua string
  | TerminalDispose nat
  | CreateTerminal string string nat
  | SendText nat string

text \<open>\<^verbatim>\<open>isWgslDocument\<close> (ctx.ts): \<^verbatim>\<open>document.languageId === 'wgsl'\<close>.\<close>

definition isWgslDocument :: "env \<Rightarrow> bool" where
  "isWgslDocument e = (languageId e = ''wgsl'')"

section \<open>fetchRunnable and pickRunnable\<close>

definition fetchRunnable :: "env \<Rightarrow> (error + Runnable list) \<times> effect list" where
  "fetchRunnable e =
     (if \<not> isWgslDocument e then (Inr [], [])
      else (response e, [ShowInformationMessage ''Fetching runnable...'', SendRequest]))"

text \<open>
  \<^verbatim>\<open>items[idx].runnable\<close> throws a TypeError when \<^verbatim>\<open>items[idx]\<close> is undefined, that
  is when the index is neither \<open>-1\<close> nor inside the list.
\<close>

definition pickRunnable :: "env \<Rightarrow> (error + Runnable option) \<times> effect list" where
  "pickRunnable e =
     (case fetchRunnable e of
        (Inl err, es) \<Rightarrow> (Inl err, es)
      | (Inr runnables, es) \<Rightarrow>
          if length runnables = 0 then (Inr None, es)
          else
            (let labels = map label runnables;
                 idx = quickpick e labels;
                 es' = es @ [ShowQuickpick labels]
             in if idx = -1 then (Inr None, es')
                else if 0 \<le> idx \<and> idx < int (length runnables)
                     then (Inr (Some (runnables ! nat idx)), es')
                     else (Inl TypeError, es')))"

section \<open>runSingle and run\<close>

text \<open>
  The module variable \<^verbatim>\<open>let terminal: Terminal | undefined\<close> and, on the editor's
  side, the terminals that were created and not yet disposed. A terminal is named by a
  number; \<open>fresh\<close> is the next number \<^verbatim>\<open>window.createTerminal\<close> hands out.
\<close>

record world =
  terminal :: "nat option"
  live :: "nat list"
  fresh :: nat

definition dispose :: "nat \<Rightarrow> world \<Rightarrow> world" where
  "dispose t w = w\<lparr>live := removeAll t (live w)\<rparr>"

definition createTerminal :: "world \<Rightarrow> nat \<times> world" where
  "createTerminal w = (fresh w, w\<lparr>live := live w @ [fresh w], fresh := Suc (fresh w)\<rparr>)"

text \<open>
  \<^verbatim>\<open>if (terminal) { terminal.dispose(); terminal = undefined; }\<close>
\<close>

definition disposePrevious :: "world \<Rightarrow> world \<times> effect list" where
  "disposePrevious w =
     (case terminal w of
        None \<Rightarrow> (w, [])
      | Some t \<Rightarrow> ((dispose t w)\<lparr>terminal := None\<rparr>, [TerminalDispose t]))"

text \<open>
  runSingle returns the runnable as it is after the call, the state after the call and
  the calls made. The command typed into the terminal is
  \<^verbatim>\<open>`${runnable.kind} ${args.join(' ')}`\<close>.
\<close>

definition runSingle :: "env \<Rightarrow> Runnable option \<Rightarrow> world \<Rightarrow> Runnable option \<times> world \<times> effect list" where
  "runSingle e ro w =
     (case ro of
        None \<Rightarrow> (None, w, [])
      | Some runnable \<Rightarrow>
          if \<not> isWgslDocument e then (Some runnable, w, [])
          else
            (case buildArgs runnable of
               (as, runnable') \<Rightarrow>
                 (let cmd = kind runnable' @ '' '' @ join '' '' as in
                  case disposePrevious w of
                    (w1, es1) \<Rightarrow>
                      (case createTerminal w1 of
                         (t, w2) \<Rightarrow>
                           (Some runnable',
                            w2\<lparr>terminal := Some t\<rparr>,
                            es1 @ [CreateTerminal (label runnable') (cwd (payload runnable')) t,
                                   SendText t cmd]
                               @ (if startinsert e then [NvimCommand ''startinsert''] else []))))))"

definition run :: "env \<Rightarrow> world \<Rightarrow> (error + unit) \<times> world \<times> effect list" where
  "run e w =
     (case pickRunnable e of
        (Inl err, es) \<Rightarrow> (Inl err, w, es)
      | (Inr None, es) \<Rightarrow> (Inr (), w, es)
      | (Inr (Some runnable), es) \<Rightarrow>
          (case runSingle e (Some runnable) w of
             (r', w', es') \<Rightarrow> (Inr (), w', es @ es')))"

text \<open>
  Calls of runSingle made one after the other, each with the editor and the runnable it
  is given; the calls made are collected in order.
\<close>

fun runAll :: "(env \<times> Runnable option) list \<Rightarrow> world \<Rightarrow> world \<times> effect list" where
  "runAll [] w = (w, [])"
| "runAll ((e, ro) # cs) w =
     (case runSingle e ro w of
        (ro', w', es) \<Rightarrow> (case runAll cs w' of (w'', es') \<Rightarrow> (w'', es @ es')))"

text \<open>
  runSingle is an \<^verbatim>\<open>async\<close> function: it is suspended at
  \<^verbatim>\<open>await window.createTerminal(opt)\<close> (line 658), after the previous terminal was
  disposed and the module variable cleared and before the new terminal is stored, and
  another call may run in between. The two functions below are the part of a call up to
  that point and the part after it; what is carried across is the terminal the editor
  created and the command to type.
\<close>

record pending =
  pendingTerminal :: nat
  pendingCmd :: string

definition runSingleBegin ::
  "env \<Rightarrow> Runnable option \<Rightarrow> world \<Rightarrow> Runnable option \<times> pending option \<times> world \<times> effect list" where
  "runSingleBegin e ro w =
     (case ro of
        None \<Rightarrow> (None, None, w, [])
      | Some runnable \<Rightarrow>
          if \<not> isWgslDocument e then (Some runnable, None, w, [])
          else
            (case buildArgs runnable of
               (as, runnable') \<Rightarrow>
                 (let cmd = kind runnable' @ '' '' @ join '' '' as in
                  case disposePrevious w of
                    (w1, es1) \<Rightarrow>
                      (case createTerminal w1 of
                         (t, w2) \<Rightarrow>
                           (Some runnable',
                            Some \<lparr>pendingTerminal = t, pendingCmd = cmd\<rparr>,
                            w2,
                            es1 @ [CreateTerminal (label runnable') (cwd (payload runnable')) t])))))"

definition runSingleResume :: "env \<Rightarrow> pending \<Rightarrow> world \<Rightarrow> world \<times> effect list" where
  "runSingleResume e p w =
     (w\<lparr>terminal := Some (pendingTerminal p)\<rparr>,
      SendText (pendingTerminal p) (pendingCmd p)
        # (if startinsert e then [NvimCommand ''startinsert''] else []))"

text \<open>
  Calls under the editor's event loop: \<open>Call\<close> starts a call and runs it up to the
  point where it is suspended, \<open>Settle i\<close> lets the suspended call number \<open>i\<close> run to
  its end. The suspended calls are kept in the order in which they were started.
\<close>

datatype action = Call env "Runnable option" | Settle nat

fun schedule ::
  "action list \<Rightarrow> world \<Rightarrow> (env \<times> pending) list \<Rightarrow> world \<times> (env \<times> pending) list \<times> effect list" where
  "schedule [] w ps = (w, ps, [])"
| "schedule (Call e ro # acts) w ps =
     (case runSingleBegin e ro w of
        (ro', po, w1, es) \<Rightarrow>
          (case schedule acts w1 (case po of None \<Rightarrow> ps | Some p \<Rightarrow> ps @ [(e, p)]) of
             (w2, ps2, es2) \<Rightarrow> (w2, ps2, es @ es2)))"
| "schedule (Settle i # acts) w ps =
     (if i < length ps then
        (case ps ! i of
           (e, p) \<Rightarrow>
             (case runSingleResume e p w of
                (w1, es) \<Rightarrow>
                  (case schedule acts w1 (take i ps @ drop (Suc i) ps) of
                     (w2, ps2, es2) \<Rightarrow> (w2, ps2, es @ es2))))
      else schedule acts w ps)"

text \<open>Calls that do not overlap: each call is settled before the next one starts.\<close>

fun oneByOne :: "(env \<times> Runnable option) list \<Rightarrow> action list" where
  "oneByOne [] = []"
| "oneByOne ((e, ro) # cs) = Call e ro # Settle 0 # oneByOne cs"

text \<open>
  The terminals open on the editor's side after one call, and at every point of a
  sequence of calls: before the first call, between two calls and after the last one.
\<close>

fun liveStep :: "nat list \<Rightarrow> effect \<Rightarrow> nat list" where
  "liveStep ts (TerminalDispose t) = removeAll t ts"
| "liveStep ts (CreateTerminal n c t) = ts @ [t]"
| "liveStep ts x = ts"

fun liveTrace :: "nat list \<Rightarrow> effect list \<Rightarrow> nat list list" where
  "liveTrace ts [] = [ts]"
| "liveTrace ts (x # es) = ts # liveTrace (liveStep ts x) es"

text \<open>The state when the extension is loaded: no terminal was created yet.\<close>

definition initialWorld :: world where
  "initialWorld = \<lparr>terminal = None, live = [], fresh = 0\<rparr>"

section \<open>debugSingle and debug\<close>

text \<open>
  Lines 453--475: the argument list of runSingle, then
  \<^verbatim>\<open>
    if (args[0] === 'test') { args.push('--no-run'); }
    if (args[0] === 'run') { args[0] = 'build'; }
    args.push('--message-format=json');
  \<close>
\<close>

definition noRun :: "string list \<Rightarrow> string list" where
  "noRun as = (case as of [] \<Rightarrow> as | a # rest \<Rightarrow> if a = ''test'' then as @ [''--no-run''] else as)"

definition runToBuild :: "string list \<Rightarrow> string list" where
  "runToBuild as = (case as of [] \<Rightarrow> as | a # rest \<Rightarrow> if a = ''run'' then as[0 := ''build''] else as)"

definition debugArgs :: "Runnable \<Rightarrow> string list \<times> Runnable" where
  "debugArgs r =
     (case buildArgs r of
        (as, r') \<Rightarrow> (runToBuild (noRun as) @ [''--message-format=json''], r'))"

text \<open>
  \<^verbatim>\<open>runnable.kind === 'webby' ? runnable.args.executableArgs.join(' ') : ''\<close>
\<close>

fun executableArgsOf :: "RunnableArgs \<Rightarrow> string" where
  "executableArgsOf (WebbyRunnableArgs wr ea wa ow en cw) = join '' '' ea"
| "executableArgsOf (ShellRunnableArgs k p a en cw) = []"

text \<open>\<^verbatim>\<open>s.split(' ')\<close>\<close>

fun splitSpace :: "string \<Rightarrow> string list" where
  "splitSpace [] = [[]]"
| "splitSpace (c # s) =
     (if c = CHR '' '' then [] # splitSpace s
      else (case splitSpace s of [] \<Rightarrow> [[c]] | x # xs \<Rightarrow> (c # x) # xs))"

definition dquoted :: "string \<Rightarrow> string" where
  "dquoted s = CHR 0x22 # s @ [CHR 0x22]"

text \<open>
  Lines 603--628: the three debug runtimes, and the error for any other value of the
  setting.
\<close>

definition launch :: "env \<Rightarrow> json \<Rightarrow> string \<Rightarrow> error + effect list" where
  "launch e executable exeArgs =
     (let runtime = debugRuntime e in
      if runtime = ''termdebug'' then
        Inr [NvimCommand (''TermdebugCommand '' @ toStr e executable @ '' '' @ exeArgs)]
      else if runtime = ''vimspector'' then
        Inr [NvimCall ''vimspector#LaunchWithSettings''
               [(''configuration'', JStr (vimspectorName e)),
                (''Executable'', executable),
                (''Args'', JStr exeArgs)]]
      else if runtime = ''nvim-dap'' then
        (let as = join '','' (map dquoted (filter (\<lambda>s. s \<noteq> []) (splitSpace exeArgs)));
             configuration =
               (case nvimdapTemplate e of
                  None \<Rightarrow> ''undefined''
                | Some template \<Rightarrow>
                    replace e
                      (replace e template ''$exe'' (dquoted (toStr e executable)))
                      ''$args'' (''{'' @ as @ ''}''))
         in Inr [NvimLua (''require('' @ dquoted ''dap'' @ '').run('' @ configuration @ '')'')])
      else Inl (Error (''Invalid debug runtime: '' @ runtime)))"

definition debugSingle :: "env \<Rightarrow> Runnable option \<Rightarrow> (error + unit) \<times> Runnable option \<times> effect list" where
  "debugSingle e ro =
     (case ro of
        None \<Rightarrow> (Inr (), None, [])
      | Some runnable \<Rightarrow>
          if \<not> isWgslDocument e then (Inr (), Some runnable, [])
          else
            (case debugArgs runnable of
               (as, runnable') \<Rightarrow>
                 (case expectedFilter (filterArgsOf (payload runnable')) of
                    (expectedKind, expectedName) \<Rightarrow>
                      (let proc = Spawn (kind runnable') as in
                       case fst (findExecutable (jsonParse e) expectedKind expectedName (stdoutLines e)) of
                         Inl err \<Rightarrow> (Inl err, Some runnable', [proc])
                       | Inr executable \<Rightarrow>
                           (case launch e executable (executableArgsOf (payload runnable')) of
                              Inl err \<Rightarrow> (Inl err, Some runnable', [proc])
                            | Inr es \<Rightarrow> (Inr (), Some runnable', proc # es))))))"

definition debug :: "env \<Rightarrow> (error + unit) \<times> effect list" where
  "debug e =
     (case pickRunnable e of
        (Inl err, es) \<Rightarrow> (Inl err, es)
      | (Inr None, es) \<Rightarrow> (Inr (), es)
      | (Inr (Some runnable), es) \<Rightarrow>
          (case debugSingle e (Some runnable) of
             (res, r', es') \<Rightarrow> (res, es @ es')))"

section \<open>The message shape the specification describes\<close>

text \<open>
  The specification speaks of build-tool messages with a \<^verbatim>\<open>reason\<close>, a
  \<^verbatim>\<open>target\<close> holding a sequence \<^verbatim>\<open>kind\<close> and a \<^verbatim>\<open>name\<close>, and an optional
  \<^verbatim>\<open>executable\<close>. The predicates below follow those words, so that the scan of the
  source can be compared with them. An executable counts as present when the field is
  truthy, which for a string means non-empty.
\<close>

definition isArtifact :: "json \<Rightarrow> bool" where
  "isArtifact m =
     (case m of JObj kvs \<Rightarrow> map_of kvs ''reason'' = Some (JStr ''compiler-artifact'') | _ \<Rightarrow> False)"

definition targetOf :: "json \<Rightarrow> (string \<times> json) list option" where
  "targetOf m =
     (case m of
        JObj kvs \<Rightarrow> (case map_of kvs ''target'' of Some (JObj t) \<Rightarrow> Some t | _ \<Rightarrow> None)
      | _ \<Rightarrow> None)"

definition kindsOf :: "json \<Rightarrow> json list option" where
  "kindsOf m =
     (case targetOf m of
        Some t \<Rightarrow> (case map_of t ''kind'' of Some (JArr xs) \<Rightarrow> Some xs | _ \<Rightarrow> None)
      | None \<Rightarrow> None)"

definition kindMatches :: "string option \<Rightarrow> json \<Rightarrow> bool" where
  "kindMatches expectedKind m =
     (case expectedKind of
        None \<Rightarrow> True
      | Some k \<Rightarrow> (case kindsOf m of Some xs \<Rightarrow> JStr k \<in> set xs | None \<Rightarrow> False))"

definition nameMatches :: "string option \<Rightarrow> json \<Rightarrow> bool" where
  "nameMatches expectedName m =
     (case expectedName of
        None \<Rightarrow> True
      | Some n \<Rightarrow> (case targetOf m of Some t \<Rightarrow> map_of t ''name'' = Some (JStr n) | None \<Rightarrow> False))"

definition executableOf :: "json \<Rightarrow> json option" where
  "executableOf m =
     (case m of
        JObj kvs \<Rightarrow>
          (case map_of kvs ''executable'' of
             Some x \<Rightarrow> if truthy x then Some x else None
           | None \<Rightarrow> None)
      | _ \<Rightarrow> None)"

definition qualifies :: "string option \<Rightarrow> string option \<Rightarrow> json \<Rightarrow> bool" where
  "qualifies expectedKind expectedName m =
     (isArtifact m \<and> kindMatches expectedKind m \<and> nameMatches expectedName m
      \<and> executableOf m \<noteq> None)"

text \<open>
  A parsed line has the shape of a message when it is not \<^verbatim>\<open>null\<close> and, if it is a
  compiler artifact, its target is an object whose kind is a sequence.
\<close>

definition wellShaped :: "json \<Rightarrow> bool" where
  "wellShaped m = (m \<noteq> JNull \<and> (isArtifact m \<longrightarrow> kindsOf m \<noteq> None))"

text \<open>
  A line the scan is meant to pass over: empty, not JSON, or a well-shaped message that
  does not qualify.
\<close>

definition passedOver ::
  "(string \<Rightarrow> json option) \<Rightarrow> string option \<Rightarrow> string option \<Rightarrow> string \<Rightarrow> bool" where
  "passedOver parse expectedKind expectedName line =
     (line = [] \<or>
      (case parse line of
         None \<Rightarrow> True
       | Some m \<Rightarrow> wellShaped m \<and> \<not> qualifies expectedKind expectedName m))"

text \<open>A line that parses to a qualifying message.\<close>

definition qualifyingLine ::
  "(string \<Rightarrow> json option) \<Rightarrow> string option \<Rightarrow> string option \<Rightarrow> string \<Rightarrow> bool" where
  "qualifyingLine parse expectedKind expectedName line =
     (line \<noteq> [] \<and>
      (case parse line of None \<Rightarrow> False | Some m \<Rightarrow> qualifies expectedKind expectedName m))"

text \<open>A message object whose \<^verbatim>\<open>target\<close> is absent or \<^verbatim>\<open>null\<close>.\<close>

definition targetMissing :: "json \<Rightarrow> bool" where
  "targetMissing m =
     (case m of
        JObj kvs \<Rightarrow> map_of kvs ''target'' = None \<or> map_of kvs ''target'' = Some JNull
      | _ \<Rightarrow> False)"

section \<open>The terminal slot\<close>

text \<open>
  Between two commands every terminal open on the editor's side is the one held in the
  module variable, and terminals that are held were handed out before.
\<close>

definition slotInv :: "world \<Rightarrow> bool" where
  "slotInv w =
     (set (live w) \<subseteq> set_option (terminal w) \<and> distinct (live w)
      \<and> (\<forall>t \<in> set_option (terminal w). t < fresh w))"

section \<open>Example data\<close>

text \<open>
  Lines of a build log with the values \<^verbatim>\<open>JSON.parse\<close> returns for them; any other
  line, such as \<^verbatim>\<open>not-json\<close>, does not parse.
\<close>

definition otherLine :: string where
  "otherLine = ''{\"reason\":\"other\"}''"

definition artifactLine :: string where
  "artifactLine =
     ''{\"reason\":\"compiler-artifact\",\"target\":{\"kind\":[\"bin\"],\"name\":\"foo\"},\"executable\":\"/x\"}''"

definition bareArtifactLine :: string where
  "bareArtifactLine = ''{\"reason\":\"compiler-artifact\",\"executable\":\"/y\"}''"

definition exampleParse :: "string \<Rightarrow> json option" where
  "exampleParse =
     map_of
       [(otherLine, JObj [(''reason'', JStr ''other'')]),
        (artifactLine,
         JObj [(''reason'', JStr ''compiler-artifact''),
               (''target'', JObj [(''kind'', JArr [JStr ''bin'']), (''name'', JStr ''foo'')]),
               (''executable'', JStr ''/x'')]),
        (bareArtifactLine,
         JObj [(''reason'', JStr ''compiler-artifact''), (''executable'', JStr ''/y'')]),
        (''null'', JNull),
        (''5'', JNum 5)]"

text \<open>Two webby runnables and a shell runnable, and an editor showing a wgsl document.\<close>

definition webbyTest :: Runnable where
  "webbyTest =
     \<lparr>label = ''webby test demo'', location = None,
      payload = WebbyRunnableArgs None [''shader_compiles'', ''--nocapture'']
                  [''test'', ''--package'', ''demo'', ''--lib''] None None ''/work''\<rparr>"

definition webbyRun :: Runnable where
  "webbyRun =
     \<lparr>label = ''webby run foo'', location = None,
      payload = WebbyRunnableArgs None [] [''run'', ''--bin'', ''foo''] None None ''/work''\<rparr>"

definition shellTest :: Runnable where
  "shellTest =
     \<lparr>label = ''npm test'', location = None,
      payload = ShellRunnableArgs ''shell'' ''npm'' [''test''] None ''/work''\<rparr>"

definition wgslEnv :: env where
  "wgslEnv =
     \<lparr>languageId = ''wgsl'', debugRuntime = ''termdebug'', vimspectorName = ''launch'',
      nvimdapTemplate = None, startinsert = False, response = Inr [webbyTest, shellTest],
      quickpick = (\<lambda>labels. 0), stdoutLines = [''not-json'', otherLine, artifactLine, otherLine],
      jsonParse = exampleParse,
      toStr = (\<lambda>v. case v of JStr s \<Rightarrow> s | _ \<Rightarrow> []),
      replace = (\<lambda>s pat rep. s)\<rparr>"

section \<open>Properties\<close>

lemmas ex_defs = wgslEnv_def webbyRun_def webbyTest_def shellTest_def exampleParse_def
  otherLine_def artifactLine_def bareArtifactLine_def initialWorld_def

lemmas scan_defs = findExecutable_def scanLine_def scanMessage_def wrongKind_def wrongName_def

lemmas shape_defs = passedOver_def qualifyingLine_def qualifies_def wellShaped_def isArtifact_def
  kindMatches_def nameMatches_def kindsOf_def targetOf_def executableOf_def targetMissing_def

subsection \<open>The expected kind and name\<close>

lemma kindLoop_none:
  "\<forall>a \<in> set pre. kindFlag a = None \<Longrightarrow> kindLoop None (pre @ rest) = kindLoop None rest"
  by (induction pre) auto

lemma kindLoop_noflag:
  "\<forall>a \<in> set xs. kindFlag a = None \<Longrightarrow> kindLoop None xs = (None, None)"
  by (induction xs) auto

lemma packageLoop_skip:
  "''--package'' \<notin> set pre \<Longrightarrow> packageLoop False (pre @ rest) = packageLoop False rest"
  by (induction pre) auto

lemma packageLoop_absent:
  "''--package'' \<notin> set (butlast xs) \<Longrightarrow> packageLoop False xs = None"
  by (induction xs) (auto split: if_splits)

lemma noflag_kindFlag:
  "a \<notin> {''--bin'', ''--lib'', ''--test'', ''--example'', ''--bench''} \<Longrightarrow> kindFlag a = None"
  by (simp add: kindFlag_def)

text \<open>
  Claim C2. Let \<open>pre\<close> hold none of \<^verbatim>\<open>--bin\<close>, \<^verbatim>\<open>--lib\<close>, \<^verbatim>\<open>--test\<close>,
  \<^verbatim>\<open>--example\<close> and \<^verbatim>\<open>--bench\<close>. If one of \<^verbatim>\<open>--bin\<close>, \<^verbatim>\<open>--test\<close>,
  \<^verbatim>\<open>--example\<close>, \<^verbatim>\<open>--bench\<close> follows, the kind is \<open>bin\<close>, \<open>test\<close>,
  \<open>example\<close>, \<open>bench\<close> respectively and the name is the token after the flag; when the
  flag is the last token the name comes from the second scan over all the arguments. If
  \<^verbatim>\<open>--lib\<close> follows, the kind is \<open>lib\<close> and the name comes from the second scan. With
  no kind flag at all the kind is undefined and the name again comes from the second
  scan. The second scan gives the token after the first \<^verbatim>\<open>--package\<close>, and nothing when
  \<^verbatim>\<open>--package\<close> is absent or last. So \<^verbatim>\<open>--bin foo\<close> gives (bin, foo), \<^verbatim>\<open>--lib\<close>
  alone gives (lib, undefined), \<^verbatim>\<open>--lib --package bar\<close> gives (lib, bar), and no kind
  flag with no \<^verbatim>\<open>--package\<close> gives (undefined, undefined).
\<close>

theorem expectedFilter_derivation:
  "(\<forall>a \<in> set pre. a \<notin> {''--bin'', ''--lib'', ''--test'', ''--example'', ''--bench''}) \<longrightarrow>
     ((f, k) \<in> {(''--bin'', ''bin''), (''--test'', ''test''), (''--example'', ''example''),
                 (''--bench'', ''bench'')} \<longrightarrow>
        expectedFilter (pre @ f # n # post) = (Some k, Some n)
        \<and> expectedFilter (pre @ [f]) = (Some k, packageLoop False (pre @ [f])))
   \<and> expectedFilter (pre @ ''--lib'' # rest) = (Some ''lib'', packageLoop False (pre @ ''--lib'' # rest))
   \<and> expectedFilter pre = (None, packageLoop False pre)
   \<and> (''--package'' \<notin> set p \<longrightarrow> packageLoop False (p @ ''--package'' # m # q) = Some m)
   \<and> (''--package'' \<notin> set (butlast xs) \<longrightarrow> packageLoop False xs = None)
   \<and> expectedFilter (pre @ ''--bin'' # ''foo'' # post) = (Some ''bin'', Some ''foo'')
   \<and> expectedFilter [''--lib''] = (Some ''lib'', None)
   \<and> expectedFilter [''--lib'', ''--package'', ''bar''] = (Some ''lib'', Some ''bar'')
   \<and> (''--package'' \<notin> set pre \<longrightarrow> expectedFilter pre = (None, None))"
proof (intro impI)
  assume lit: "\<forall>a \<in> set pre. a \<notin> {''--bin'', ''--lib'', ''--test'', ''--example'', ''--bench''}"
  then have pre: "\<forall>a \<in> set pre. kindFlag a = None"
    using noflag_kindFlag by blast
  have a: "(f, k) \<in> {(''--bin'', ''bin''), (''--test'', ''test''), (''--example'', ''example''),
                 (''--bench'', ''bench'')} \<longrightarrow>
        expectedFilter (pre @ f # n # post) = (Some k, Some n)
        \<and> expectedFilter (pre @ [f]) = (Some k, packageLoop False (pre @ [f]))"
    using pre by (auto simp: expectedFilter_def kindLoop_none kindFlag_def)
  have b: "expectedFilter (pre @ ''--lib'' # rest)
           = (Some ''lib'', packageLoop False (pre @ ''--lib'' # rest))"
    using pre by (cases rest) (auto simp: expectedFilter_def kindLoop_none kindFlag_def)
  have c: "expectedFilter pre = (None, packageLoop False pre)"
    using pre by (simp add: expectedFilter_def kindLoop_noflag)
  have d: "''--package'' \<notin> set p \<longrightarrow> packageLoop False (p @ ''--package'' # m # q) = Some m"
    by (simp add: packageLoop_skip)
  have e: "''--package'' \<notin> set (butlast xs) \<longrightarrow> packageLoop False xs = None"
    by (simp add: packageLoop_absent)
  have f: "expectedFilter (pre @ ''--bin'' # ''foo'' # post) = (Some ''bin'', Some ''foo'')"
    using pre by (simp add: expectedFilter_def kindLoop_none kindFlag_def)
  have g: "expectedFilter [''--lib''] = (Some ''lib'', None)"
    by (simp add: expectedFilter_def kindFlag_def)
  have h: "expectedFilter [''--lib'', ''--package'', ''bar''] = (Some ''lib'', Some ''bar'')"
    by (simp add: expectedFilter_def kindFlag_def)
  have i: "''--package'' \<notin> set pre \<longrightarrow> expectedFilter pre = (None, None)"
  proof
    assume "''--package'' \<notin> set pre"
    then have "''--package'' \<notin> set (butlast pre)" by (meson in_set_butlastD)
    then show "expectedFilter pre = (None, None)" using c by (simp add: packageLoop_absent)
  qed
  from a b c d e f g h i
  show "((f, k) \<in> {(''--bin'', ''bin''), (''--test'', ''test''), (''--example'', ''example''),
                 (''--bench'', ''bench'')} \<longrightarrow>
        expectedFilter (pre @ f # n # post) = (Some k, Some n)
        \<and> expectedFilter (pre @ [f]) = (Some k, packageLoop False (pre @ [f])))
   \<and> expectedFilter (pre @ ''--lib'' # rest) = (Some ''lib'', packageLoop False (pre @ ''--lib'' # rest))
   \<and> expectedFilter pre = (None, packageLoop False pre)
   \<and> (''--package'' \<notin> set p \<longrightarrow> packageLoop False (p @ ''--package'' # m # q) = Some m)
   \<and> (''--package'' \<notin> set (butlast xs) \<longrightarrow> packageLoop False xs = None)
   \<and> expectedFilter (pre @ ''--bin'' # ''foo'' # post) = (Some ''bin'', Some ''foo'')
   \<and> expectedFilter [''--lib''] = (Some ''lib'', None)
   \<and> expectedFilter [''--lib'', ''--package'', ''bar''] = (Some ''lib'', Some ''bar'')
   \<and> (''--package'' \<notin> set pre \<longrightarrow> expectedFilter pre = (None, None))"
    by blast
qed

theorem expectedFilter_derivation_witness:
  "''run'' \<notin> {''--bin'', ''--lib'', ''--test'', ''--example'', ''--bench''}
   \<and> ''--package'' \<notin> set [''run''] \<and> ''--package'' \<notin> set (butlast [''run'', ''--package''])
   \<and> expectedFilter [''run'', ''--bin'', ''demo'', ''--release''] = (Some ''bin'', Some ''demo'')
   \<and> expectedFilter [''run'', ''--test'', ''demo'', ''--release''] = (Some ''test'', Some ''demo'')
   \<and> expectedFilter [''run'', ''--example'', ''demo'', ''--release''] = (Some ''example'', Some ''demo'')
   \<and> expectedFilter [''run'', ''--bench'', ''demo'', ''--release''] = (Some ''bench'', Some ''demo'')
   \<and> expectedFilter [''run'', ''--bench''] = (Some ''bench'', None)
   \<and> expectedFilter [''run'', ''--lib'', ''demo''] = (Some ''lib'', None)
   \<and> expectedFilter [''run'', ''--lib'', ''--package'', ''core''] = (Some ''lib'', Some ''core'')
   \<and> expectedFilter [''run''] = (None, None)
   \<and> packageLoop False [''run'', ''--package'', ''core'', ''--lib''] = Some ''core''
   \<and> packageLoop False [''run'', ''--package''] = None"
  using
    expectedFilter_derivation [where pre = "[''run'']" and f = "''--bin''" and k = "''bin''"
      and n = "''demo''" and post = "[''--release'']" and rest = "[''demo'']" and p = "[''run'']"
      and m = "''core''" and q = "[''--lib'']" and xs = "[''run'', ''--package'']"]
    expectedFilter_derivation [where pre = "[''run'']" and f = "''--test''" and k = "''test''"
      and n = "''demo''" and post = "[''--release'']" and rest = "[''--package'', ''core'']"]
    expectedFilter_derivation [where pre = "[''run'']" and f = "''--example''" and k = "''example''"
      and n = "''demo''" and post = "[''--release'']"]
    expectedFilter_derivation [where pre = "[''run'']" and f = "''--bench''" and k = "''bench''"
      and n = "''demo''" and post = "[''--release'']"]
  by (simp add: packageLoop_skip)

subsection \<open>The argument list and the command typed into the terminal\<close>

lemma buildArgs_shell:
  "payload r = ShellRunnableArgs k p a en cw \<Longrightarrow> buildArgs r = (a, r)"
  by (simp add: buildArgs_def)

lemma kind_buildArgs: "kind (snd (buildArgs r)) = kind r"
  by (cases "payload r") (auto simp: buildArgs_def kind_def Let_def split: list.splits)

lemma label_buildArgs: "label (snd (buildArgs r)) = label r"
  by (cases "payload r") (auto simp: buildArgs_def Let_def split: list.splits)

lemma cwd_buildArgs: "cwd (payload (snd (buildArgs r))) = cwd (payload r)"
  by (cases "payload r") (auto simp: buildArgs_def Let_def split: list.splits)

lemma filterArgs_buildArgs: "filterArgsOf (payload (snd (buildArgs r))) = filterArgsOf (payload r)"
  by (cases "payload r") (auto simp: buildArgs_def Let_def split: list.splits)

lemma runSingle_unfold:
  "isWgslDocument e \<Longrightarrow>
   runSingle e (Some r) w =
     (Some (snd (buildArgs r)),
      \<lparr>terminal = Some (fresh w),
       live = (case terminal w of None \<Rightarrow> live w | Some t \<Rightarrow> removeAll t (live w)) @ [fresh w],
       fresh = Suc (fresh w)\<rparr>,
      (case terminal w of None \<Rightarrow> [] | Some t \<Rightarrow> [TerminalDispose t])
      @ [CreateTerminal (label r) (cwd (payload r)) (fresh w),
         SendText (fresh w) (kind r @ '' '' @ join '' '' (fst (buildArgs r)))]
      @ (if startinsert e then [NvimCommand ''startinsert''] else []))"
  using kind_buildArgs[of r] label_buildArgs[of r] cwd_buildArgs[of r]
  by (auto simp: runSingle_def disposePrevious_def createTerminal_def dispose_def Let_def
      split: prod.splits option.splits)

lemma removeAll_only: "set xs \<subseteq> {t} \<Longrightarrow> removeAll t xs = []"
  by (induction xs) auto

lemma runSingle_noop:
  "ro = None \<or> \<not> isWgslDocument e \<Longrightarrow> runSingle e ro w = (ro, w, [])"
  by (auto simp: runSingle_def split: option.splits)

lemma buildArgs_webby:
  "payload r = WebbyRunnableArgs wr ea wa ow en cw \<Longrightarrow>
   fst (buildArgs r) = (if ea = [] then wa else wa @ [''--''] @ quoted (hd ea) # tl ea)"
  by (cases ea) (simp_all add: buildArgs_def Let_def)

text \<open>
  Claim C3. In a wgsl document, for a webby runnable with an empty \<^verbatim>\<open>executableArgs\<close>
  the argument list is \<^verbatim>\<open>webbyArgs\<close> and nothing else; with a non-empty one it is
  \<^verbatim>\<open>webbyArgs\<close>, then \<^verbatim>\<open>--\<close>, then \<^verbatim>\<open>executableArgs\<close> with its first
  element between single quotes and the others as they are. The command sent to the new
  terminal is \<^verbatim>\<open>webby\<close>, a space, and that list joined with spaces.
\<close>

theorem runSingle_webby_args:
  "isWgslDocument e \<and> payload r = WebbyRunnableArgs wr ea wa ow en cw \<longrightarrow>
     (ea = [] \<longrightarrow> fst (buildArgs r) = wa)
   \<and> (ea = x # xs \<longrightarrow>
        fst (buildArgs r) = wa @ [''--''] @ (CHR 0x27 # x @ [CHR 0x27]) # xs)
   \<and> (ea = [] \<longrightarrow>
        SendText (fresh w) (''webby '' @ join '' '' wa) \<in> set (snd (snd (runSingle e (Some r) w))))
   \<and> (ea = x # xs \<longrightarrow>
        SendText (fresh w)
          (''webby '' @ join '' '' (wa @ [''--''] @ (CHR 0x27 # x @ [CHR 0x27]) # xs))
          \<in> set (snd (snd (runSingle e (Some r) w))))"
proof (intro impI, elim conjE)
  assume doc: "isWgslDocument e" and pl: "payload r = WebbyRunnableArgs wr ea wa ow en cw"
  have k: "kind r = ''webby''" using pl by (simp add: kind_def)
  have s: "SendText (fresh w) (''webby '' @ join '' '' (fst (buildArgs r)))
             \<in> set (snd (snd (runSingle e (Some r) w)))"
    using runSingle_unfold[OF doc, of r w] k by simp
  show "(ea = [] \<longrightarrow> fst (buildArgs r) = wa)
   \<and> (ea = x # xs \<longrightarrow>
        fst (buildArgs r) = wa @ [''--''] @ (CHR 0x27 # x @ [CHR 0x27]) # xs)
   \<and> (ea = [] \<longrightarrow>
        SendText (fresh w) (''webby '' @ join '' '' wa) \<in> set (snd (snd (runSingle e (Some r) w))))
   \<and> (ea = x # xs \<longrightarrow>
        SendText (fresh w)
          (''webby '' @ join '' '' (wa @ [''--''] @ (CHR 0x27 # x @ [CHR 0x27]) # xs))
          \<in> set (snd (snd (runSingle e (Some r) w))))"
    using s buildArgs_webby[OF pl] by (auto simp: quoted_def)
qed

theorem runSingle_webby_args_witness:
  "isWgslDocument wgslEnv
   \<and> payload webbyTest = WebbyRunnableArgs None [''shader_compiles'', ''--nocapture'']
                  [''test'', ''--package'', ''demo'', ''--lib''] None None ''/work''
   \<and> fst (buildArgs webbyTest) =
       [''test'', ''--package'', ''demo'', ''--lib'', ''--'',
        CHR 0x27 # ''shader_compiles'' @ [CHR 0x27], ''--nocapture'']
   \<and> SendText 0
        (''webby test --package demo --lib -- '' @ CHR 0x27 # ''shader_compiles'' @ CHR 0x27
           # '' --nocapture'')
        \<in> set (snd (snd (runSingle wgslEnv (Some webbyTest) initialWorld)))
   \<and> payload webbyRun = WebbyRunnableArgs None [] [''run'', ''--bin'', ''foo''] None None ''/work''
   \<and> fst (buildArgs webbyRun) = [''run'', ''--bin'', ''foo'']
   \<and> SendText 0 ''webby run --bin foo''
        \<in> set (snd (snd (runSingle wgslEnv (Some webbyRun) initialWorld)))"
  using runSingle_webby_args [where e = wgslEnv and r = webbyTest and w = initialWorld
      and wr = None and ea = "[''shader_compiles'', ''--nocapture'']"
      and x = "''shader_compiles''" and xs = "[''--nocapture'']"
      and wa = "[''test'', ''--package'', ''demo'', ''--lib'']" and ow = None and en = None and cw = "''/work''"]
    runSingle_webby_args [where e = wgslEnv and r = webbyRun and w = initialWorld
      and wr = None and ea = "[]" and wa = "[''run'', ''--bin'', ''foo'']" and ow = None
      and en = None and cw = "''/work''"]
  by (simp add: isWgslDocument_def wgslEnv_def webbyTest_def webbyRun_def initialWorld_def)

text \<open>
  Claim C4. The specification has the command of a shell runnable start with the
  runnable's \<^verbatim>\<open>program\<close>. runSingle starts it with \<^verbatim>\<open>runnable.kind\<close>, the tag
  of the union: for the runnable with program \<^verbatim>\<open>npm\<close> and arguments \<^verbatim>\<open>test\<close> the
  text sent to the terminal is \<^verbatim>\<open>shell test\<close>, and \<^verbatim>\<open>npm test\<close> is never sent.
  The arguments themselves are joined with single spaces, without \<^verbatim>\<open>--\<close> and
  without quotes.
\<close>

theorem runSingle_shell_command:
  "program (payload shellTest) = ''npm''
   \<and> shellArgs (payload shellTest) = [''test'']
   \<and> snd (snd (runSingle wgslEnv (Some shellTest) initialWorld))
        = [CreateTerminal ''npm test'' ''/work'' 0, SendText 0 ''shell test'']
   \<and> SendText 0 ''npm test'' \<notin> set (snd (snd (runSingle wgslEnv (Some shellTest) initialWorld)))"
  by (simp add: ex_defs isWgslDocument_def runSingle_def buildArgs_def kind_def
      disposePrevious_def dispose_def createTerminal_def)

text \<open>
  Claim C5. The specification has the resolver only read the runnable. Both runSingle
  and debugSingle assign to element 0 of the runnable's own \<^verbatim>\<open>executableArgs\<close>:
  after either call the first element stands between single quotes in the runnable
  itself, and running the returned runnable again quotes it a second time.
\<close>

theorem runSingle_rewrites_runnable:
  "executableArgs (payload webbyTest) = [''shader_compiles'', ''--nocapture'']
   \<and> map_option (executableArgs \<circ> payload) (fst (runSingle wgslEnv (Some webbyTest) initialWorld))
        = Some [quoted ''shader_compiles'', ''--nocapture'']
   \<and> fst (runSingle wgslEnv (Some webbyTest) initialWorld) \<noteq> Some webbyTest
   \<and> map_option (executableArgs \<circ> payload) (fst (snd (debugSingle wgslEnv (Some webbyTest))))
        = Some [quoted ''shader_compiles'', ''--nocapture'']
   \<and> map_option (executableArgs \<circ> payload)
        (fst (runSingle wgslEnv (fst (runSingle wgslEnv (Some webbyTest) initialWorld)) initialWorld))
        = Some [quoted (quoted ''shader_compiles''), ''--nocapture'']"
  by (simp add: ex_defs isWgslDocument_def runSingle_def debugSingle_def debugArgs_def buildArgs_def
      kind_def disposePrevious_def dispose_def createTerminal_def quoted_def Let_def
      expectedFilter_def kindFlag_def scan_defs noRun_def runToBuild_def)

subsection \<open>The arguments of the debug build\<close>

lemma debugArgs_fst:
  "fst (debugArgs r) = runToBuild (noRun (fst (buildArgs r))) @ [''--message-format=json'']"
  by (simp add: debugArgs_def split: prod.splits)

text \<open>
  Claim C6, as amended. The two rewrites look at the argument list that was built and
  not at the kind of the runnable: whenever the list starts with \<^verbatim>\<open>test\<close>,
  \<^verbatim>\<open>--no-run\<close> is appended; whenever it starts with \<^verbatim>\<open>run\<close>, that token becomes
  \<^verbatim>\<open>build\<close>; otherwise the list is kept. For a shell runnable the list is its
  \<^verbatim>\<open>args\<close>, for a webby runnable it is the list of claim C3. In every case
  \<^verbatim>\<open>--message-format=json\<close> is appended last.
\<close>

theorem debugArgs_rewrites:
  "(fst (buildArgs r) = ''test'' # rest \<longrightarrow>
      fst (debugArgs r) = ''test'' # rest @ [''--no-run'', ''--message-format=json''])
   \<and> (fst (buildArgs r) = ''run'' # rest \<longrightarrow>
      fst (debugArgs r) = ''build'' # rest @ [''--message-format=json''])
   \<and> (fst (buildArgs r) = [] \<or> (hd (fst (buildArgs r)) \<noteq> ''test'' \<and> hd (fst (buildArgs r)) \<noteq> ''run'') \<longrightarrow>
      fst (debugArgs r) = fst (buildArgs r) @ [''--message-format=json''])
   \<and> (payload r = ShellRunnableArgs k p a en cw \<longrightarrow> fst (buildArgs r) = a)
   \<and> (payload r = WebbyRunnableArgs wr ea wa ow en cw \<longrightarrow>
      fst (buildArgs r) = (if ea = [] then wa else wa @ [''--''] @ quoted (hd ea) # tl ea))
   \<and> last (fst (debugArgs r)) = ''--message-format=json''"
proof -
  have a: "fst (buildArgs r) = ''test'' # rest \<longrightarrow>
      fst (debugArgs r) = ''test'' # rest @ [''--no-run'', ''--message-format=json'']"
    by (simp add: debugArgs_fst noRun_def runToBuild_def)
  have b: "fst (buildArgs r) = ''run'' # rest \<longrightarrow>
      fst (debugArgs r) = ''build'' # rest @ [''--message-format=json'']"
    by (simp add: debugArgs_fst noRun_def runToBuild_def)
  have c: "fst (buildArgs r) = [] \<or> (hd (fst (buildArgs r)) \<noteq> ''test'' \<and> hd (fst (buildArgs r)) \<noteq> ''run'') \<longrightarrow>
      fst (debugArgs r) = fst (buildArgs r) @ [''--message-format=json'']"
    by (cases "fst (buildArgs r)") (auto simp: debugArgs_fst noRun_def runToBuild_def)
  have d: "payload r = ShellRunnableArgs k p a en cw \<longrightarrow> fst (buildArgs r) = a"
    by (simp add: buildArgs_shell)
  have e: "payload r = WebbyRunnableArgs wr ea wa ow en cw \<longrightarrow>
      fst (buildArgs r) = (if ea = [] then wa else wa @ [''--''] @ quoted (hd ea) # tl ea)"
    by (cases ea) (simp_all add: buildArgs_def Let_def)
  have f: "last (fst (debugArgs r)) = ''--message-format=json''"
    by (simp add: debugArgs_fst)
  from a b c d e f show ?thesis by blast
qed

theorem debugArgs_rewrites_witness:
  "fst (buildArgs shellTest) = [''test'']
   \<and> payload shellTest = ShellRunnableArgs ''shell'' ''npm'' [''test''] None ''/work''
   \<and> fst (debugArgs shellTest) = [''test'', ''--no-run'', ''--message-format=json'']
   \<and> fst (buildArgs webbyRun) = [''run'', ''--bin'', ''foo'']
   \<and> fst (debugArgs webbyRun) = [''build'', ''--bin'', ''foo'', ''--message-format=json'']
   \<and> fst (debugArgs (shellTest\<lparr>payload := ShellRunnableArgs ''shell'' ''npm'' [] None ''/work''\<rparr>))
        = [''--message-format=json'']"
  using debugArgs_rewrites [where r = shellTest and rest = "[]" and k = "''shell''" and p = "''npm''"
      and a = "[''test'']" and en = None and cw = "''/work''"]
    debugArgs_rewrites [where r = webbyRun and rest = "[''--bin'', ''foo'']" and wr = None
      and ea = "[]" and wa = "[''run'', ''--bin'', ''foo'']" and ow = None and en = None and cw = "''/work''"]
    debugArgs_rewrites [where r = "shellTest\<lparr>payload := ShellRunnableArgs ''shell'' ''npm'' [] None ''/work''\<rparr>"]
  by (simp add: ex_defs buildArgs_def)

text \<open>
  The claim as it was stated fails: a shell runnable whose arguments are \<^verbatim>\<open>test\<close>
  gets \<^verbatim>\<open>--no-run\<close> as well.
\<close>

theorem debugArgs_rewrites_counterexample:
  "kind shellTest = ''shell''
   \<and> shellArgs (payload shellTest) = [''test'']
   \<and> fst (debugArgs shellTest) = [''test'', ''--no-run'', ''--message-format=json'']
   \<and> fst (debugArgs shellTest) \<noteq> shellArgs (payload shellTest) @ [''--message-format=json'']"
  by (simp add: ex_defs kind_def debugArgs_def buildArgs_def noRun_def runToBuild_def)

subsection \<open>The scan of the standard output\<close>











lemma scanLines_passed_prefix:
  "\<forall>x \<in> set pre. scanLine parse ek en x = Inr Continue \<Longrightarrow>
   scanLines parse ek en (pre @ rest) = scanLines parse ek en rest"
  by (induction pre) auto

lemma executableOf_truthy: "executableOf m = Some x \<Longrightarrow> truthy x"
  by (auto simp: executableOf_def split: json.splits option.splits if_splits)





lemma scanLine_null: "line \<noteq> [] \<Longrightarrow> parse line = Some JNull \<Longrightarrow> scanLine parse ek en line = Inl TypeError"
  by (simp add: scanLine_def scanMessage_def)

lemma scanMessage_target_missing:
  "isArtifact m \<Longrightarrow> targetMissing m \<Longrightarrow> ek \<noteq> None \<or> en \<noteq> None \<Longrightarrow>
   scanMessage ek en m = Inl TypeError"
  by (cases m; cases ek; cases en)
     (auto simp: scanMessage_def isArtifact_def targetMissing_def wrongKind_def wrongName_def)

lemma scanMessage_no_filter:
  "isArtifact m \<Longrightarrow>
   scanMessage None None m = (case executableOf m of None \<Rightarrow> Inr Continue | Some x \<Rightarrow> Inr (Break x))"
  by (cases m)
     (auto simp: scanMessage_def isArtifact_def wrongKind_def wrongName_def executableOf_def
       split: option.splits)

lemma scanMessage_primitive:
  "(\<exists>b. m = JBool b) \<or> (\<exists>n. m = JNum n) \<or> (\<exists>s. m = JStr s) \<or> (\<exists>xs. m = JArr xs) \<Longrightarrow>
   scanMessage ek en m = Inr Continue"
  by (auto simp: scanMessage_def)

lemma findExecutable_throw:
  assumes "\<forall>x \<in> set pre. scanLine parse ek en x = Inr Continue"
    and "scanLine parse ek en line = Inl err"
  shows "findExecutable parse ek en (pre @ line # post) = (Inl err, post)"
  using scanLines_passed_prefix[OF assms(1), of "line # post"] assms(2)
  by (simp add: findExecutable_def)

lemma findExecutable_continue:
  assumes "\<forall>x \<in> set pre. scanLine parse ek en x = Inr Continue"
    and "scanLine parse ek en line = Inr Continue"
  shows "findExecutable parse ek en (pre @ line # post) = findExecutable parse ek en post"
  using scanLines_passed_prefix[OF assms(1), of "line # post"] assms(2)
  by (simp add: findExecutable_def)

lemma findExecutable_break:
  assumes "\<forall>x \<in> set pre. scanLine parse ek en x = Inr Continue"
    and "scanLine parse ek en line = Inr (Break x)" and "truthy x"
  shows "findExecutable parse ek en (pre @ line # post) = (Inr x, post)"
  using scanLines_passed_prefix[OF assms(1), of "line # post"] assms(2,3)
  by (simp add: findExecutable_def)

lemma debugSingle_unfold:
  assumes "isWgslDocument e" and "expectedFilter (filterArgsOf (payload r)) = (ek, en)"
  shows "debugSingle e (Some r) =
     (case fst (findExecutable (jsonParse e) ek en (stdoutLines e)) of
        Inl err \<Rightarrow> (Inl err, Some (snd (buildArgs r)), [Spawn (kind r) (fst (debugArgs r))])
      | Inr x \<Rightarrow>
          (case launch e x (executableArgsOf (payload (snd (buildArgs r)))) of
             Inl err \<Rightarrow> (Inl err, Some (snd (buildArgs r)), [Spawn (kind r) (fst (debugArgs r))])
           | Inr es \<Rightarrow> (Inr (), Some (snd (buildArgs r)), Spawn (kind r) (fst (debugArgs r)) # es)))"
  using assms kind_buildArgs[of r] filterArgs_buildArgs[of r]
  by (auto simp: debugSingle_def debugArgs_def Let_def split: prod.splits sum.splits)




text \<open>
  Claim C10, as amended. Let only lines the scan passes over come before a line that
  parses to \<open>m\<close>. If \<open>m\<close> is \<^verbatim>\<open>null\<close> the scan throws a TypeError. If \<open>m\<close> is a
  compiler artifact whose target is absent or \<^verbatim>\<open>null\<close>, it throws a TypeError when an
  expected kind or an expected name is set; when neither is set the target is not read
  and the message is treated as any other artifact. If \<open>m\<close> is a boolean, a number, a
  string or an array, the line is passed over. A TypeError thrown by the scan leaves
  debugSingle as it is: after the build tool was spawned, with no debugger started.
\<close>

theorem scan_type_errors:
  "(\<forall>l \<in> set pre. scanLine parse ek en l = Inr Continue) \<and> line \<noteq> [] \<and> parse line = Some m \<longrightarrow>
     (m = JNull \<longrightarrow> findExecutable parse ek en (pre @ line # post) = (Inl TypeError, post))
   \<and> (isArtifact m \<and> targetMissing m \<and> (ek \<noteq> None \<or> en \<noteq> None) \<longrightarrow>
        findExecutable parse ek en (pre @ line # post) = (Inl TypeError, post))
   \<and> (isArtifact m \<and> targetMissing m \<and> ek = None \<and> en = None \<longrightarrow>
        findExecutable parse ek en (pre @ line # post) =
          (case executableOf m of
             Some x \<Rightarrow> (Inr x, post)
           | None \<Rightarrow> findExecutable parse ek en post))
   \<and> ((\<exists>b. m = JBool b) \<or> (\<exists>n. m = JNum n) \<or> (\<exists>s. m = JStr s) \<or> (\<exists>xs. m = JArr xs) \<longrightarrow>
        findExecutable parse ek en (pre @ line # post) = findExecutable parse ek en post)
   \<and> (isWgslDocument e \<and> jsonParse e = parse \<and> stdoutLines e = pre @ line # post
        \<and> expectedFilter (filterArgsOf (payload r)) = (ek, en)
        \<and> (m = JNull \<or> (isArtifact m \<and> targetMissing m \<and> (ek \<noteq> None \<or> en \<noteq> None))) \<longrightarrow>
        debugSingle e (Some r) =
          (Inl TypeError, Some (snd (buildArgs r)), [Spawn (kind r) (fst (debugArgs r))]))"
proof (intro impI, elim conjE)
  assume pre: "\<forall>l \<in> set pre. scanLine parse ek en l = Inr Continue"
    and ne: "line \<noteq> []" and m: "parse line = Some m"
  have sl: "scanLine parse ek en line = scanMessage ek en m"
    using ne m by (simp add: scanLine_def)
  have a: "m = JNull \<longrightarrow> findExecutable parse ek en (pre @ line # post) = (Inl TypeError, post)"
    using findExecutable_throw[OF pre, of line TypeError post] scanLine_null[OF ne, of parse ek en] m
    by simp
  have b: "isArtifact m \<and> targetMissing m \<and> (ek \<noteq> None \<or> en \<noteq> None) \<longrightarrow>
        findExecutable parse ek en (pre @ line # post) = (Inl TypeError, post)"
    using findExecutable_throw[OF pre, of line TypeError post] sl
      scanMessage_target_missing[of m ek en] by auto
  have c: "isArtifact m \<and> targetMissing m \<and> ek = None \<and> en = None \<longrightarrow>
        findExecutable parse ek en (pre @ line # post) =
          (case executableOf m of
             Some x \<Rightarrow> (Inr x, post)
           | None \<Rightarrow> findExecutable parse ek en post)"
  proof (intro impI, elim conjE)
    assume art: "isArtifact m" and "ek = None" "en = None"
    then have s: "scanLine parse ek en line =
        (case executableOf m of None \<Rightarrow> Inr Continue | Some x \<Rightarrow> Inr (Break x))"
      using sl scanMessage_no_filter[OF art] by simp
    show "findExecutable parse ek en (pre @ line # post) =
          (case executableOf m of
             Some x \<Rightarrow> (Inr x, post)
           | None \<Rightarrow> findExecutable parse ek en post)"
    proof (cases "executableOf m")
      case None
      then show ?thesis using findExecutable_continue[OF pre, of line post] s by simp
    next
      case (Some x)
      then show ?thesis
        using findExecutable_break[OF pre, of line x post] s executableOf_truthy[OF Some] by simp
    qed
  qed
  have d: "(\<exists>b. m = JBool b) \<or> (\<exists>n. m = JNum n) \<or> (\<exists>s. m = JStr s) \<or> (\<exists>xs. m = JArr xs) \<longrightarrow>
        findExecutable parse ek en (pre @ line # post) = findExecutable parse ek en post"
    using findExecutable_continue[OF pre, of line post] sl scanMessage_primitive[of m ek en]
    by auto
  have e: "isWgslDocument e \<and> jsonParse e = parse \<and> stdoutLines e = pre @ line # post
        \<and> expectedFilter (filterArgsOf (payload r)) = (ek, en)
        \<and> (m = JNull \<or> (isArtifact m \<and> targetMissing m \<and> (ek \<noteq> None \<or> en \<noteq> None))) \<longrightarrow>
        debugSingle e (Some r) =
          (Inl TypeError, Some (snd (buildArgs r)), [Spawn (kind r) (fst (debugArgs r))])"
  proof (intro impI, elim conjE)
    assume doc: "isWgslDocument e" and p: "jsonParse e = parse"
      and st: "stdoutLines e = pre @ line # post"
      and f: "expectedFilter (filterArgsOf (payload r)) = (ek, en)"
      and bad: "m = JNull \<or> (isArtifact m \<and> targetMissing m \<and> (ek \<noteq> None \<or> en \<noteq> None))"
    have "fst (findExecutable (jsonParse e) ek en (stdoutLines e)) = Inl TypeError"
      using a b bad p st by auto
    then show "debugSingle e (Some r) =
          (Inl TypeError, Some (snd (buildArgs r)), [Spawn (kind r) (fst (debugArgs r))])"
      using debugSingle_unfold[OF doc f] by simp
  qed
  from a b c d e
  show "(m = JNull \<longrightarrow> findExecutable parse ek en (pre @ line # post) = (Inl TypeError, post))
   \<and> (isArtifact m \<and> targetMissing m \<and> (ek \<noteq> None \<or> en \<noteq> None) \<longrightarrow>
        findExecutable parse ek en (pre @ line # post) = (Inl TypeError, post))
   \<and> (isArtifact m \<and> targetMissing m \<and> ek = None \<and> en = None \<longrightarrow>
        findExecutable parse ek en (pre @ line # post) =
          (case executableOf m of
             Some x \<Rightarrow> (Inr x, post)
           | None \<Rightarrow> findExecutable parse ek en post))
   \<and> ((\<exists>b. m = JBool b) \<or> (\<exists>n. m = JNum n) \<or> (\<exists>s. m = JStr s) \<or> (\<exists>xs. m = JArr xs) \<longrightarrow>
        findExecutable parse ek en (pre @ line # post) = findExecutable parse ek en post)
   \<and> (isWgslDocument e \<and> jsonParse e = parse \<and> stdoutLines e = pre @ line # post
        \<and> expectedFilter (filterArgsOf (payload r)) = (ek, en)
        \<and> (m = JNull \<or> (isArtifact m \<and> targetMissing m \<and> (ek \<noteq> None \<or> en \<noteq> None))) \<longrightarrow>
        debugSingle e (Some r) =
          (Inl TypeError, Some (snd (buildArgs r)), [Spawn (kind r) (fst (debugArgs r))]))"
    by blast
qed

theorem scan_type_errors_witness:
  "scanLine exampleParse (Some ''bin'') (Some ''foo'') otherLine = Inr Continue
   \<and> exampleParse ''null'' = Some JNull
   \<and> findExecutable exampleParse (Some ''bin'') (Some ''foo'') [otherLine, ''null'', artifactLine]
        = (Inl TypeError, [artifactLine])
   \<and> isArtifact (the (exampleParse bareArtifactLine))
   \<and> targetMissing (the (exampleParse bareArtifactLine))
   \<and> findExecutable exampleParse None (Some ''foo'') [otherLine, bareArtifactLine, artifactLine]
        = (Inl TypeError, [artifactLine])
   \<and> findExecutable exampleParse None None [otherLine, bareArtifactLine, artifactLine]
        = (Inr (JStr ''/y''), [artifactLine])
   \<and> findExecutable exampleParse (Some ''bin'') (Some ''foo'') [otherLine, ''5'', artifactLine]
        = (Inr (JStr ''/x''), [])
   \<and> debugSingle (wgslEnv\<lparr>stdoutLines := [otherLine, ''null'', artifactLine]\<rparr>) (Some webbyRun)
        = (Inl TypeError, Some webbyRun,
           [Spawn ''webby'' [''build'', ''--bin'', ''foo'', ''--message-format=json'']])"
  using
    scan_type_errors [where parse = exampleParse and ek = "Some ''bin''" and en = "Some ''foo''"
      and pre = "[otherLine]" and line = "''null''" and m = JNull and post = "[artifactLine]"
      and e = "wgslEnv\<lparr>stdoutLines := [otherLine, ''null'', artifactLine]\<rparr>" and r = webbyRun]
    scan_type_errors [where parse = exampleParse and ek = None and en = "Some ''foo''"
      and pre = "[otherLine]" and line = bareArtifactLine and post = "[artifactLine]"
      and m = "JObj [(''reason'', JStr ''compiler-artifact''), (''executable'', JStr ''/y'')]"]
    scan_type_errors [where parse = exampleParse and ek = None and en = None
      and pre = "[otherLine]" and line = bareArtifactLine and post = "[artifactLine]"
      and m = "JObj [(''reason'', JStr ''compiler-artifact''), (''executable'', JStr ''/y'')]"]
    scan_type_errors [where parse = exampleParse and ek = "Some ''bin''" and en = "Some ''foo''"
      and pre = "[otherLine]" and line = "''5''" and m = "JNum 5" and post = "[artifactLine]"]
  by (simp add: ex_defs shape_defs scan_defs isWgslDocument_def expectedFilter_def kindFlag_def
      buildArgs_def debugArgs_def noRun_def runToBuild_def kind_def)

text \<open>
  The claim as it was stated fails for a value that is not an object and not \<^verbatim>\<open>null\<close>,
  and for an artifact without a target when no filter is set: the line \<^verbatim>\<open>5\<close> is passed
  over, and the artifact without a target resolves to its executable.
\<close>

theorem scan_type_errors_counterexample:
  "exampleParse ''5'' = Some (JNum 5)
   \<and> findExecutable exampleParse (Some ''bin'') (Some ''foo'') [''5'', artifactLine]
        = (Inr (JStr ''/x''), [])
   \<and> exampleParse bareArtifactLine
        = Some (JObj [(''reason'', JStr ''compiler-artifact''), (''executable'', JStr ''/y'')])
   \<and> findExecutable exampleParse None None [bareArtifactLine, artifactLine]
        = (Inr (JStr ''/y''), [artifactLine])"
  by (simp add: ex_defs shape_defs scan_defs)

subsection \<open>The debug runtime\<close>



subsection \<open>The terminal slot\<close>

lemma runSingle_slot:
  "slotInv w \<and> runSingle e ro w = (ro', w', es) \<longrightarrow>
     slotInv w'
   \<and> (\<forall>ts \<in> set (liveTrace (live w) es). length ts \<le> 1)
   \<and> last (liveTrace (live w) es) = live w'
   \<and> (isWgslDocument e \<and> ro \<noteq> None \<longrightarrow> terminal w' = Some (fresh w) \<and> live w' = [fresh w])
   \<and> (isWgslDocument e \<and> ro \<noteq> None \<and> terminal w = Some t \<longrightarrow>
        t \<noteq> fresh w
        \<and> (\<exists>n c rest. es = TerminalDispose t # CreateTerminal n c (fresh w) # rest
              \<and> (\<forall>x \<in> set rest. \<forall>u n' c'. x \<noteq> TerminalDispose u \<and> x \<noteq> CreateTerminal n' c' u)))
   \<and> (isWgslDocument e \<and> ro \<noteq> None \<and> terminal w = None \<longrightarrow>
        (\<exists>n c rest. es = CreateTerminal n c (fresh w) # rest
              \<and> (\<forall>x \<in> set rest. \<forall>u n' c'. x \<noteq> TerminalDispose u \<and> x \<noteq> CreateTerminal n' c' u)))"
proof (intro impI, elim conjE)
  assume inv: "slotInv w" and run: "runSingle e ro w = (ro', w', es)"
  show "slotInv w'
   \<and> (\<forall>ts \<in> set (liveTrace (live w) es). length ts \<le> 1)
   \<and> last (liveTrace (live w) es) = live w'
   \<and> (isWgslDocument e \<and> ro \<noteq> None \<longrightarrow> terminal w' = Some (fresh w) \<and> live w' = [fresh w])
   \<and> (isWgslDocument e \<and> ro \<noteq> None \<and> terminal w = Some t \<longrightarrow>
        t \<noteq> fresh w
        \<and> (\<exists>n c rest. es = TerminalDispose t # CreateTerminal n c (fresh w) # rest
              \<and> (\<forall>x \<in> set rest. \<forall>u n' c'. x \<noteq> TerminalDispose u \<and> x \<noteq> CreateTerminal n' c' u)))
   \<and> (isWgslDocument e \<and> ro \<noteq> None \<and> terminal w = None \<longrightarrow>
        (\<exists>n c rest. es = CreateTerminal n c (fresh w) # rest
              \<and> (\<forall>x \<in> set rest. \<forall>u n' c'. x \<noteq> TerminalDispose u \<and> x \<noteq> CreateTerminal n' c' u)))"
  proof (cases "ro = None \<or> \<not> isWgslDocument e")
    case True
    then have "w' = w" "es = []" using run runSingle_noop[OF True, of w] by simp_all
    moreover have "length (live w) \<le> 1"
      using inv by (cases "terminal w"; cases "live w"; cases "tl (live w)") (auto simp: slotInv_def)
    ultimately show ?thesis using inv True by auto
  next
    case False
    then obtain r where r: "ro = Some r" and doc: "isWgslDocument e" by auto
    note u = runSingle_unfold[OF doc, of r w]
    show ?thesis
    proof (cases "terminal w")
      case None
      then have l: "live w = []" using inv by (simp add: slotInv_def)
      show ?thesis using run r u None l doc by (auto simp: slotInv_def split: if_splits)
    next
      case (Some t0)
      then have sub: "set (live w) \<subseteq> {t0}" and d: "distinct (live w)" and lt: "t0 < fresh w"
        using inv by (simp_all add: slotInv_def)
      have rm: "removeAll t0 (live w) = []"
        using sub by (rule removeAll_only)
      have len: "length (live w) \<le> 1"
        using sub d by (cases "live w"; cases "tl (live w)") auto
      show ?thesis using run r u Some rm len lt doc by (auto simp: slotInv_def split: if_splits)
    qed
  qed
qed

lemma liveTrace_nonempty: "liveTrace ts es \<noteq> []"
  by (cases es) auto

lemma liveTrace_append:
  "set (liveTrace ts (es @ es'))
   = set (liveTrace ts es) \<union> set (liveTrace (last (liveTrace ts es)) es')"
proof (induction es arbitrary: ts)
  case Nil
  then show ?case by (cases es') auto
next
  case (Cons x es)
  then show ?case by (simp add: liveTrace_nonempty)
qed

lemma last_liveTrace_append:
  "last (liveTrace ts (es @ es')) = last (liveTrace (last (liveTrace ts es)) es')"
  by (induction es arbitrary: ts) (simp_all add: liveTrace_nonempty)

lemma runAll_slot:
  "slotInv w \<Longrightarrow>
   slotInv (fst (runAll cs w))
   \<and> (\<forall>ts \<in> set (liveTrace (live w) (snd (runAll cs w))). length ts \<le> 1)
   \<and> last (liveTrace (live w) (snd (runAll cs w))) = live (fst (runAll cs w))"
proof (induction cs arbitrary: w)
  case Nil
  have "length (live w) \<le> 1"
    using Nil by (cases "terminal w"; cases "live w"; cases "tl (live w)") (auto simp: slotInv_def)
  then show ?case using Nil by simp
next
  case (Cons c cs)
  obtain e ro where c: "c = (e, ro)" by (cases c)
  obtain ro' w' es where r: "runSingle e ro w = (ro', w', es)" by (cases "runSingle e ro w")
  obtain w'' es' where a: "runAll cs w' = (w'', es')" by (cases "runAll cs w'")
  from runSingle_slot[of w e ro ro' w' es] Cons.prems r
  have s: "slotInv w'" "\<forall>ts \<in> set (liveTrace (live w) es). length ts \<le> 1"
    "last (liveTrace (live w) es) = live w'" by simp_all
  from Cons.IH[OF s(1)] a
  have t: "slotInv w''" "\<forall>ts \<in> set (liveTrace (live w') es'). length ts \<le> 1"
    "last (liveTrace (live w') es') = live w''" by simp_all
  show ?case using c r a s t by (auto simp: liveTrace_append last_liveTrace_append)
qed

lemma runSingle_two_phase:
  "runSingle e ro w =
     (case runSingleBegin e ro w of
        (ro', None, w1, es) \<Rightarrow> (ro', w1, es)
      | (ro', Some p, w1, es) \<Rightarrow>
          (case runSingleResume e p w1 of (w2, es') \<Rightarrow> (ro', w2, es @ es')))"
  by (auto simp: runSingle_def runSingleBegin_def runSingleResume_def Let_def
      split: option.splits prod.splits)

lemma begin_none_noop:
  "runSingleBegin e ro w = (ro', None, w1, es) \<Longrightarrow> w1 = w \<and> es = []"
  by (auto simp: runSingleBegin_def Let_def split: option.splits prod.splits if_splits)

lemma schedule_oneByOne:
  "schedule (oneByOne cs) w [] = (fst (runAll cs w), [], snd (runAll cs w))"
proof (induction cs arbitrary: w)
  case Nil
  show ?case by simp
next
  case (Cons c cs)
  obtain e ro where c: "c = (e, ro)" by (cases c)
  obtain ro' po w1 es where b: "runSingleBegin e ro w = (ro', po, w1, es)"
    by (cases "runSingleBegin e ro w")
  show ?case
  proof (cases po)
    case None
    then show ?thesis
      using c b Cons.IH[of w1] runSingle_two_phase[of e ro w]
      by (simp split: prod.splits)
  next
    case (Some p)
    then show ?thesis
      using c b Cons.IH runSingle_two_phase[of e ro w]
      by (simp split: prod.splits)
  qed
qed

text \<open>
  Claim C8, as amended. No terminal is open when the extension is loaded. For calls of
  runSingle that do not overlap, running them under the event loop is running them one
  after the other. Let the slot invariant hold before such a call. It holds again
  afterwards, and at every point of the call at most one terminal is open. When the call
  runs a runnable in a wgsl document, the slot afterwards holds the new terminal and no
  other terminal is open; if the slot held a terminal \<open>t\<close> before, the calls made start
  with the disposal of \<open>t\<close>, followed by the creation of the new terminal, and no other
  disposal or creation follows. The same bound holds at every point of any sequence of
  calls that do not overlap.
\<close>

theorem run_terminal_slot:
  "slotInv initialWorld
   \<and> schedule (oneByOne cs) w [] = (fst (runAll cs w), [], snd (runAll cs w))
   \<and> (slotInv w \<longrightarrow>
        slotInv (fst (runAll cs w))
        \<and> (\<forall>ts \<in> set (liveTrace (live w) (snd (runAll cs w))). length ts \<le> 1))
   \<and> (slotInv w \<and> runSingle e ro w = (ro', w', es) \<longrightarrow>
     slotInv w'
   \<and> (\<forall>ts \<in> set (liveTrace (live w) es). length ts \<le> 1)
   \<and> last (liveTrace (live w) es) = live w'
   \<and> (isWgslDocument e \<and> ro \<noteq> None \<longrightarrow> terminal w' = Some (fresh w) \<and> live w' = [fresh w])
   \<and> (isWgslDocument e \<and> ro \<noteq> None \<and> terminal w = Some t \<longrightarrow>
        t \<noteq> fresh w
        \<and> (\<exists>n c rest. es = TerminalDispose t # CreateTerminal n c (fresh w) # rest
              \<and> (\<forall>x \<in> set rest. \<forall>u n' c'. x \<noteq> TerminalDispose u \<and> x \<noteq> CreateTerminal n' c' u)))
   \<and> (isWgslDocument e \<and> ro \<noteq> None \<and> terminal w = None \<longrightarrow>
        (\<exists>n c rest. es = CreateTerminal n c (fresh w) # rest
              \<and> (\<forall>x \<in> set rest. \<forall>u n' c'. x \<noteq> TerminalDispose u \<and> x \<noteq> CreateTerminal n' c' u))))"
proof -
  have i: "slotInv initialWorld"
    by (simp add: slotInv_def initialWorld_def)
  have a: "slotInv w \<longrightarrow>
        slotInv (fst (runAll cs w))
        \<and> (\<forall>ts \<in> set (liveTrace (live w) (snd (runAll cs w))). length ts \<le> 1)"
    using runAll_slot[of w cs] by simp
  from i a schedule_oneByOne[of cs w] runSingle_slot[of w e ro ro' w' es t]
  show ?thesis by blast
qed

theorem run_terminal_slot_witness:
  "slotInv \<lparr>terminal = Some 0, live = [0], fresh = 1\<rparr>
   \<and> isWgslDocument wgslEnv
   \<and> fst (snd (runSingle wgslEnv (Some shellTest) \<lparr>terminal = Some 0, live = [0], fresh = 1\<rparr>))
        = \<lparr>terminal = Some 1, live = [1], fresh = 2\<rparr>
   \<and> snd (snd (runSingle wgslEnv (Some shellTest) \<lparr>terminal = Some 0, live = [0], fresh = 1\<rparr>))
        = [TerminalDispose 0, CreateTerminal ''npm test'' ''/work'' 1, SendText 1 ''shell test'']
   \<and> liveTrace [0]
        [TerminalDispose 0, CreateTerminal ''npm test'' ''/work'' 1, SendText 1 ''shell test'']
        = [[0], [], [1], [1]]
   \<and> slotInv \<lparr>terminal = Some 1, live = [1], fresh = 2\<rparr>
   \<and> slotInv initialWorld
   \<and> runSingle wgslEnv (Some shellTest) initialWorld
        = (Some shellTest, \<lparr>terminal = Some 0, live = [0], fresh = 1\<rparr>,
           [CreateTerminal ''npm test'' ''/work'' 0, SendText 0 ''shell test''])
   \<and> liveTrace [] [CreateTerminal ''npm test'' ''/work'' 0, SendText 0 ''shell test'']
        = [[], [0], [0]]
   \<and> runAll [(wgslEnv, Some shellTest), (wgslEnv, Some shellTest)] initialWorld
        = (\<lparr>terminal = Some 1, live = [1], fresh = 2\<rparr>,
           [CreateTerminal ''npm test'' ''/work'' 0, SendText 0 ''shell test'',
            TerminalDispose 0, CreateTerminal ''npm test'' ''/work'' 1, SendText 1 ''shell test''])
   \<and> liveTrace []
        [CreateTerminal ''npm test'' ''/work'' 0, SendText 0 ''shell test'',
         TerminalDispose 0, CreateTerminal ''npm test'' ''/work'' 1, SendText 1 ''shell test'']
        = [[], [0], [0], [], [1], [1]]
   \<and> schedule [Call wgslEnv (Some shellTest), Settle 0, Call wgslEnv (Some shellTest), Settle 0]
        initialWorld []
        = (\<lparr>terminal = Some 1, live = [1], fresh = 2\<rparr>, [],
           [CreateTerminal ''npm test'' ''/work'' 0, SendText 0 ''shell test'',
            TerminalDispose 0, CreateTerminal ''npm test'' ''/work'' 1, SendText 1 ''shell test''])"
  using run_terminal_slot [where w = "\<lparr>terminal = Some 0, live = [0], fresh = 1\<rparr>"
      and e = wgslEnv and ro = "Some shellTest" and ro' = "Some shellTest"
      and w' = "\<lparr>terminal = Some 1, live = [1], fresh = 2\<rparr>"
      and es = "[TerminalDispose 0, CreateTerminal ''npm test'' ''/work'' 1, SendText 1 ''shell test'']"
      and t = 0 and cs = "[(wgslEnv, Some shellTest)]"]
    run_terminal_slot [where w = initialWorld
      and e = wgslEnv and ro = "Some shellTest" and ro' = "Some shellTest"
      and w' = "\<lparr>terminal = Some 0, live = [0], fresh = 1\<rparr>"
      and es = "[CreateTerminal ''npm test'' ''/work'' 0, SendText 0 ''shell test'']"
      and cs = "[(wgslEnv, Some shellTest), (wgslEnv, Some shellTest)]"]
  by (simp add: ex_defs slotInv_def isWgslDocument_def runSingle_def buildArgs_def kind_def
      disposePrevious_def dispose_def createTerminal_def runSingleBegin_def runSingleResume_def)

text \<open>
  The claim as it was stated, for every point and every pair of calls, fails when two
  calls overlap. With terminal \<open>0\<close> open, a first call disposes it, clears the slot and
  is suspended while terminal \<open>1\<close> is created; a second call started then finds the
  slot empty, disposes nothing and has terminal \<open>2\<close> created. Both terminals are open
  together, and after both calls have ended the slot holds \<open>2\<close> while \<open>1\<close> is still
  open.
\<close>

theorem run_terminal_slot_counterexample:
  "slotInv \<lparr>terminal = Some 0, live = [0], fresh = 1\<rparr>
   \<and> schedule [Call wgslEnv (Some shellTest), Call wgslEnv (Some webbyRun), Settle 0, Settle 0]
        \<lparr>terminal = Some 0, live = [0], fresh = 1\<rparr> []
        = (\<lparr>terminal = Some 2, live = [1, 2], fresh = 3\<rparr>, [],
           [TerminalDispose 0, CreateTerminal ''npm test'' ''/work'' 1,
            CreateTerminal ''webby run foo'' ''/work'' 2, SendText 1 ''shell test'',
            SendText 2 ''webby run --bin foo''])
   \<and> liveTrace [0]
        [TerminalDispose 0, CreateTerminal ''npm test'' ''/work'' 1,
         CreateTerminal ''webby run foo'' ''/work'' 2, SendText 1 ''shell test'',
         SendText 2 ''webby run --bin foo'']
        = [[0], [], [1], [1, 2], [1, 2], [1, 2]]
   \<and> \<not> slotInv \<lparr>terminal = Some 2, live = [1, 2], fresh = 3\<rparr>"
  by (simp add: ex_defs slotInv_def isWgslDocument_def buildArgs_def kind_def
      disposePrevious_def dispose_def createTerminal_def runSingleBegin_def runSingleResume_def)

subsection \<open>Preconditions that are not met\<close>

text \<open>
  Claim C9. When the document is not a wgsl document, fetchRunnable returns the empty
  list without any call, and pickRunnable, run, debug, runSingle and debugSingle return
  without an error, without a call and without a change. When the list of runnables is
  empty, pickRunnable returns no selection and shows no picker. When the picker returns
  \<open>-1\<close>, pickRunnable returns no selection. With no selection, run and debug return
  without an error and make no call beyond those of pickRunnable.
\<close>

theorem precondition_noop:
  "(\<not> isWgslDocument e \<longrightarrow>
      fetchRunnable e = (Inr [], []) \<and> pickRunnable e = (Inr None, [])
      \<and> run e w = (Inr (), w, []) \<and> debug e = (Inr (), [])
      \<and> runSingle e ro w = (ro, w, []) \<and> debugSingle e ro = (Inr (), ro, []))
   \<and> (fst (fetchRunnable e) = Inr [] \<longrightarrow>
      pickRunnable e = (Inr None, snd (fetchRunnable e))
      \<and> (\<forall>labels. ShowQuickpick labels \<notin> set (snd (pickRunnable e))))
   \<and> (fst (fetchRunnable e) = Inr rs \<and> rs \<noteq> [] \<and> quickpick e (map label rs) = -1 \<longrightarrow>
      pickRunnable e = (Inr None, snd (fetchRunnable e) @ [ShowQuickpick (map label rs)]))
   \<and> (fst (pickRunnable e) = Inr None \<longrightarrow>
      run e w = (Inr (), w, snd (pickRunnable e)) \<and> debug e = (Inr (), snd (pickRunnable e)))"
proof -
  have a: "\<not> isWgslDocument e \<longrightarrow>
      fetchRunnable e = (Inr [], []) \<and> pickRunnable e = (Inr None, [])
      \<and> run e w = (Inr (), w, []) \<and> debug e = (Inr (), [])
      \<and> runSingle e ro w = (ro, w, []) \<and> debugSingle e ro = (Inr (), ro, [])"
    by (auto simp: fetchRunnable_def pickRunnable_def run_def debug_def runSingle_def
        debugSingle_def split: option.splits)
  have b: "fst (fetchRunnable e) = Inr [] \<longrightarrow>
      pickRunnable e = (Inr None, snd (fetchRunnable e))
      \<and> (\<forall>labels. ShowQuickpick labels \<notin> set (snd (pickRunnable e)))"
  proof
    assume em: "fst (fetchRunnable e) = Inr []"
    then obtain es where f: "fetchRunnable e = (Inr [], es)" by (cases "fetchRunnable e") simp
    have p: "pickRunnable e = (Inr None, snd (fetchRunnable e))"
      by (simp add: pickRunnable_def f)
    have "\<forall>labels. ShowQuickpick labels \<notin> set (snd (fetchRunnable e))"
      by (auto simp: fetchRunnable_def)
    then show "pickRunnable e = (Inr None, snd (fetchRunnable e))
        \<and> (\<forall>labels. ShowQuickpick labels \<notin> set (snd (pickRunnable e)))"
      using p by simp
  qed
  have c: "fst (fetchRunnable e) = Inr rs \<and> rs \<noteq> [] \<and> quickpick e (map label rs) = -1 \<longrightarrow>
      pickRunnable e = (Inr None, snd (fetchRunnable e) @ [ShowQuickpick (map label rs)])"
  proof
    assume c: "fst (fetchRunnable e) = Inr rs \<and> rs \<noteq> [] \<and> quickpick e (map label rs) = -1"
    then obtain es where f: "fetchRunnable e = (Inr rs, es)" by (cases "fetchRunnable e") simp
    show "pickRunnable e = (Inr None, snd (fetchRunnable e) @ [ShowQuickpick (map label rs)])"
      using c by (simp add: pickRunnable_def Let_def f)
  qed
  have d: "fst (pickRunnable e) = Inr None \<longrightarrow>
      run e w = (Inr (), w, snd (pickRunnable e)) \<and> debug e = (Inr (), snd (pickRunnable e))"
  proof
    assume n: "fst (pickRunnable e) = Inr None"
    then obtain es where f: "pickRunnable e = (Inr None, es)" by (cases "pickRunnable e") simp
    show "run e w = (Inr (), w, snd (pickRunnable e)) \<and> debug e = (Inr (), snd (pickRunnable e))"
      by (simp add: run_def debug_def f)
  qed
  from a b c d show ?thesis by blast
qed

theorem precondition_noop_witness:
  "\<not> isWgslDocument (wgslEnv\<lparr>languageId := ''rust''\<rparr>)
   \<and> run (wgslEnv\<lparr>languageId := ''rust''\<rparr>) initialWorld = (Inr (), initialWorld, [])
   \<and> fst (fetchRunnable (wgslEnv\<lparr>response := Inr []\<rparr>)) = Inr []
   \<and> pickRunnable (wgslEnv\<lparr>response := Inr []\<rparr>)
        = (Inr None, [ShowInformationMessage ''Fetching runnable...'', SendRequest])
   \<and> fst (fetchRunnable (wgslEnv\<lparr>quickpick := (\<lambda>labels. -1)\<rparr>)) = Inr [webbyTest, shellTest]
   \<and> pickRunnable (wgslEnv\<lparr>quickpick := (\<lambda>labels. -1)\<rparr>)
        = (Inr None, [ShowInformationMessage ''Fetching runnable...'', SendRequest,
                      ShowQuickpick [''webby test demo'', ''npm test'']])
   \<and> run (wgslEnv\<lparr>quickpick := (\<lambda>labels. -1)\<rparr>) initialWorld
        = (Inr (), initialWorld,
           [ShowInformationMessage ''Fetching runnable...'', SendRequest,
            ShowQuickpick [''webby test demo'', ''npm test'']])"
  using precondition_noop [where e = "wgslEnv\<lparr>languageId := ''rust''\<rparr>" and w = initialWorld]
    precondition_noop [where e = "wgslEnv\<lparr>response := Inr []\<rparr>"]
    precondition_noop [where e = "wgslEnv\<lparr>quickpick := (\<lambda>labels. -1)\<rparr>" and w = initialWorld
      and rs = "[webbyTest, shellTest]"]
  by (simp add: ex_defs isWgslDocument_def fetchRunnable_def pickRunnable_def)

end
